theory Spec2Isabelle
  imports Complex_Main "HOL-Library.Sublist" "HOL-Library.AList"
begin

section \<open>Strings as the services use them\<close>

text \<open>
  The TypeScript sources work on JavaScript strings. They are modelled as HOL strings
  (lists of characters); the manifests and version strings the extension handles are
  ASCII. The helpers below are the string methods the modelled functions call.
\<close>

definition isDigit :: "char \<Rightarrow> bool" where
  "isDigit c = (c \<in> set ''0123456789'')"

definition digitVal :: "char \<Rightarrow> nat" where
  "digitVal c = of_char c - of_char (CHR ''0'')"

text \<open>
  \<^verbatim>\<open>Number(s)\<close> is only ever applied to the pieces of a string that holds nothing but
  digits and dots, so \<open>s\<close> is a possibly empty run of decimal digits: the empty string
  converts to 0, a run of digits to its decimal value (leading zeros allowed). The value
  is kept exact; the rounding of a JavaScript double for runs of more than 15 digits is
  not part of the model.
\<close>

definition Number :: "string \<Rightarrow> nat" where
  "Number s = foldl (\<lambda>n c. 10 * n + digitVal c) 0 s"

text \<open>\<^verbatim>\<open>s.split(sep)\<close> for a one-character separator: never the empty list.\<close>

fun js_split :: "char \<Rightarrow> string \<Rightarrow> string list" where
  "js_split sep [] = [[]]"
| "js_split sep (c # cs) =
     (if c = sep then [] # js_split sep cs
      else (case js_split sep cs of
              [] \<Rightarrow> [[c]]
            | p # ps \<Rightarrow> (c # p) # ps))"

section \<open>Version comparison (pub-api-service.ts, isVersionOutdated)\<close>

text \<open>\<^verbatim>\<open>v.replace(/[^0-9.]/g, '')\<close>: keep the digits and the dots.\<close>

definition digitsAndDots :: "string \<Rightarrow> string" where
  "digitsAndDots v = filter (\<lambda>c. isDigit c \<or> c = CHR ''.'') v"

text \<open>\<^verbatim>\<open>parts[i] || 0\<close>: an index past the end reads \<^verbatim>\<open>undefined\<close>, which becomes 0.\<close>

definition partAt :: "nat list \<Rightarrow> nat \<Rightarrow> nat" where
  "partAt parts i = (if i < length parts then parts ! i else 0)"

text \<open>
  The \<^verbatim>\<open>for\<close> loop of \<open>isVersionOutdated\<close>, from index \<open>i\<close> on:
  \<^verbatim>\<open>
  for (let i = 0; i < Math.max(currentParts.length, latestParts.length); i++) {
    const current = currentParts[i] || 0;
    const latest = latestParts[i] || 0;
    if (latest > current) { return true; }
    if (current > latest) { return false; }
  }
  return false;
  \<close>
\<close>

function outdatedLoop :: "nat list \<Rightarrow> nat list \<Rightarrow> nat \<Rightarrow> bool" where
  "outdatedLoop currentParts latestParts i =
     (if i < max (length currentParts) (length latestParts) then
        (let current = partAt currentParts i;
             latest = partAt latestParts i
         in if latest > current then True
            else if current > latest then False
            else outdatedLoop currentParts latestParts (i + 1))
      else False)"
  by pat_completeness auto
termination
  by (relation "measure (\<lambda>(c, l, i). max (length c) (length l) - i)") auto

declare outdatedLoop.simps [simp del]

text \<open>
  The parameters are typed \<^verbatim>\<open>string\<close>; the falsy test \<^verbatim>\<open>!currentVersion\<close> on a string
  is the test for the empty string.
\<close>

definition isVersionOutdated :: "string \<Rightarrow> string \<Rightarrow> bool" where
  "isVersionOutdated currentVersion latestVersion =
     (if currentVersion = [] \<or> latestVersion = [] then False
      else
        (let cleanCurrent = digitsAndDots currentVersion;
             cleanLatest = digitsAndDots latestVersion
         in if cleanCurrent = [] \<or> cleanLatest = [] then False
            else outdatedLoop (map Number (js_split (CHR ''.'') cleanCurrent))
                              (map Number (js_split (CHR ''.'') cleanLatest)) 0))"

subsection \<open>The comparison as the specification words it\<close>

text \<open>
  The reference algorithm of the specification: the components are compared pairwise from
  the left, a missing component counting as 0; the first position where they differ
  decides, and equal sequences are not outdated.
\<close>

fun compareComponents :: "nat list \<Rightarrow> nat list \<Rightarrow> bool" where
  "compareComponents [] [] = False"
| "compareComponents (d # ds) [] =
     (if 0 > d then True else if d > 0 then False else compareComponents ds [])"
| "compareComponents [] (l # ls) =
     (if l > 0 then True else if 0 > l then False else compareComponents [] ls)"
| "compareComponents (d # ds) (l # ls) =
     (if l > d then True else if d > l then False else compareComponents ds ls)"


section \<open>The TTL cache (cache-service.ts)\<close>

text \<open>
  A cache entry holds the payload, the time it was stored and the time it expires, both
  in milliseconds as \<^verbatim>\<open>Date.now()\<close> returns them. The payload is any JavaScript value;
  \<open>None\<close> stands for \<^verbatim>\<open>null\<close>, which \<open>get\<close> also returns for a missing entry.
\<close>

record 'v CacheEntry =
  data :: "'v option"
  timestamp :: int
  expiresAt :: int

text \<open>
  The settings of the \<^verbatim>\<open>smartPub\<close> configuration section that the services read; a
  setting that is not set is \<open>None\<close>, and each reader supplies its default.
\<close>

record Config =
  cfg_autoRunPubGet :: "bool option"
  cfg_enableCache :: "bool option"
  cfg_cacheExpiration :: "int option"
  cfg_maxSearchResults :: "int option"

text \<open>
  The service owns the \<^verbatim>\<open>Map\<close> of entries, kept as an association list in insertion
  order, and writes its snapshot to the extension's global state under the key
  \<^verbatim>\<open>smartPubCache\<close>; \<open>None\<close> is a global state that holds nothing under that key. The
  global state is taken to answer every read and write (the \<^verbatim>\<open>catch\<close> blocks around them are
  not entered) and to give back the entries as they were written. Reading the clock is
  explicit: every operation that calls \<^verbatim>\<open>Date.now()\<close> takes the value it reads as an
  argument.
\<close>

record 'v CacheService =
  cache :: "(string \<times> 'v CacheEntry) list"
  globalState :: "(string \<times> 'v CacheEntry) list option"

definition saveCacheToStorage :: "'v CacheService \<Rightarrow> 'v CacheService" where
  "saveCacheToStorage s = s\<lparr>globalState := Some (cache s)\<rparr>"

definition get :: "int \<Rightarrow> string \<Rightarrow> 'v CacheService \<Rightarrow> 'v option \<times> 'v CacheService" where
  "get now key s =
     (case map_of (cache s) key of
        None \<Rightarrow> (None, s)
      | Some entry \<Rightarrow>
          if now > expiresAt entry
          then (None, saveCacheToStorage (s\<lparr>cache := AList.delete key (cache s)\<rparr>))
          else (data entry, s))"

text \<open>\<^verbatim>\<open>config.get<number>('cacheExpiration', 3600)\<close>\<close>

definition cacheExpiration :: "Config \<Rightarrow> int" where
  "cacheExpiration cfg = (case cfg_cacheExpiration cfg of None \<Rightarrow> 3600 | Some n \<Rightarrow> n)"

text \<open>
  \<open>set\<close> of the source. It reads the clock twice, for \<open>timestamp\<close> (\<open>now1\<close>) and for
  \<open>expiresAt\<close> (\<open>now2\<close>). The optional argument \<open>expirationSeconds\<close> is \<open>None\<close> when the
  caller leaves it out; \<^verbatim>\<open>expirationSeconds || defaultExpiration\<close> takes the default for a
  missing argument and for the falsy number 0.
\<close>

definition set_cache ::
  "int \<Rightarrow> int \<Rightarrow> Config \<Rightarrow> string \<Rightarrow> 'v option \<Rightarrow> int option \<Rightarrow> 'v CacheService
     \<Rightarrow> 'v CacheService" where
  "set_cache now1 now2 cfg key dat expirationSeconds s =
     (let defaultExpiration = cacheExpiration cfg;
          expiration = (case expirationSeconds of
                          None \<Rightarrow> defaultExpiration
                        | Some n \<Rightarrow> if n = 0 then defaultExpiration else n);
          entry = \<lparr>data = dat, timestamp = now1, expiresAt = now2 + expiration * 1000\<rparr>
      in saveCacheToStorage (s\<lparr>cache := AList.update key entry (cache s)\<rparr>))"

definition has :: "int \<Rightarrow> string \<Rightarrow> 'v CacheService \<Rightarrow> bool \<times> 'v CacheService" where
  "has now key s = (case get now key s of (r, s') \<Rightarrow> (r \<noteq> None, s'))"

definition delete :: "string \<Rightarrow> 'v CacheService \<Rightarrow> 'v CacheService" where
  "delete key s = saveCacheToStorage (s\<lparr>cache := AList.delete key (cache s)\<rparr>)"

definition clear :: "'v CacheService \<Rightarrow> 'v CacheService" where
  "clear s = saveCacheToStorage (s\<lparr>cache := []\<rparr>)"

text \<open>\<^verbatim>\<open>config.get<boolean>('enableCache', true)\<close>\<close>

definition isEnabled :: "Config \<Rightarrow> bool" where
  "isEnabled cfg = (case cfg_enableCache cfg of None \<Rightarrow> True | Some b \<Rightarrow> b)"

text \<open>
  One round of the loop of \<open>cleanExpiredEntries\<close> over the entries of the map: the state
  is the map and the flag \<open>hasChanges\<close>.
\<close>

definition cleanStep ::
  "int \<Rightarrow> (string \<times> 'v CacheEntry) list \<times> bool \<Rightarrow> string \<times> 'v CacheEntry
     \<Rightarrow> (string \<times> 'v CacheEntry) list \<times> bool" where
  "cleanStep now st ke =
     (if now > expiresAt (snd ke) then (AList.delete (fst ke) (fst st), True) else st)"

definition cleanExpiredEntries :: "int \<Rightarrow> 'v CacheService \<Rightarrow> 'v CacheService" where
  "cleanExpiredEntries now s =
     (case foldl (cleanStep now) (cache s, False) (cache s) of
        (cache', hasChanges) \<Rightarrow>
          if hasChanges then saveCacheToStorage (s\<lparr>cache := cache'\<rparr>)
          else s\<lparr>cache := cache'\<rparr>)"

text \<open>
  \<open>loadCacheFromStorage\<close> reads the snapshot (\<^verbatim>\<open>{}\<close> when nothing is stored) into the map
  and sweeps it; the constructor does nothing else.
\<close>

definition loadCacheFromStorage :: "int \<Rightarrow> 'v CacheService \<Rightarrow> 'v CacheService" where
  "loadCacheFromStorage now s =
     (let stored = (case globalState s of None \<Rightarrow> [] | Some entries \<Rightarrow> entries)
      in cleanExpiredEntries now (s\<lparr>cache := stored\<rparr>))"

definition newCacheService ::
  "int \<Rightarrow> (string \<times> 'v CacheEntry) list option \<Rightarrow> 'v CacheService" where
  "newCacheService now stored = loadCacheFromStorage now \<lparr>cache = [], globalState = stored\<rparr>"

section \<open>The manifest analyzer (PubspecAnalyzer)\<close>

text \<open>
  White space as \<^verbatim>\<open>trim()\<close> and the regular expression class \<^verbatim>\<open>\S\<close> see it, within
  ASCII: space, tab, line feed, vertical tab, form feed and carriage return.
\<close>

definition isSpace :: "char \<Rightarrow> bool" where
  "isSpace c = (c \<in> set [CHR '' '', CHR 0x09, CHR 0x0A, CHR 0x0B, CHR 0x0C, CHR 0x0D])"

definition trim :: "string \<Rightarrow> string" where
  "trim s = rev (dropWhile isSpace (rev (dropWhile isSpace s)))"

text \<open>
  \<^verbatim>\<open>line.search(/\S/)\<close>: the index of the first character that is not white space, and
  \<open>-1\<close> when the line has none.
\<close>

definition search_nonspace :: "string \<Rightarrow> int" where
  "search_nonspace s =
     (case dropWhile isSpace s of
        [] \<Rightarrow> - 1
      | _ # _ \<Rightarrow> int (length (takeWhile isSpace s)))"

record Position =
  line :: nat
  character :: int

record Range =
  range_start :: Position
  range_end :: Position

text \<open>
  The loop of \<open>findPackageRange\<close> over the lines of the document, as a recursion over the
  lines still to be read: \<open>i\<close> is the index of the first of them, \<open>inSection\<close> and
  \<open>sectionIndent\<close> are the two variables of the loop.
  \<^verbatim>\<open>
  for (let i = 0; i < lines.length; i++) {
    const line = lines[i];
    const trimmedLine = line.trim();
    const lineIndent = line.search(/\S/);
    if (trimmedLine === `${sectionName}:`) {
      inSection = true; sectionIndent = lineIndent; continue;
    }
    if (inSection) {
      if (lineIndent <= sectionIndent && trimmedLine.endsWith(':')) { break; }
      if (trimmedLine.startsWith(`${packageName}:`)) {
        return new vscode.Range(new vscode.Position(i, lineIndent),
                                new vscode.Position(i, line.length));
      }
    }
  }
  return null;
  \<close>
\<close>

fun scanLines ::
  "string \<Rightarrow> string \<Rightarrow> string list \<Rightarrow> nat \<Rightarrow> bool \<Rightarrow> int \<Rightarrow> Range option" where
  "scanLines packageName sectionName [] i inSection sectionIndent = None"
| "scanLines packageName sectionName (l # rest) i inSection sectionIndent =
     (let trimmedLine = trim l;
          lineIndent = search_nonspace l
      in if trimmedLine = sectionName @ '':''
         then scanLines packageName sectionName rest (i + 1) True lineIndent
         else if inSection
         then (if lineIndent \<le> sectionIndent \<and> suffix '':'' trimmedLine then None
               else if prefix (packageName @ '':'') trimmedLine
               then Some \<lparr>range_start = \<lparr>line = i, character = lineIndent\<rparr>,
                          range_end = \<lparr>line = i, character = int (length l)\<rparr>\<rparr>
               else scanLines packageName sectionName rest (i + 1) inSection sectionIndent)
         else scanLines packageName sectionName rest (i + 1) inSection sectionIndent)"

definition findPackageRange :: "string \<Rightarrow> string \<Rightarrow> string \<Rightarrow> Range option" where
  "findPackageRange text packageName sectionName =
     scanLines packageName sectionName (js_split (CHR 0x0A) text) 0 False 0"

text \<open>
  The regular expression \<^verbatim>\<open>/[\d]+\.[\d]+\.[\d]+/\<close> matched at the start of a string: a
  run of digits, a dot, a run of digits, a dot, a run of digits, each run as long as it
  can be (a shorter first or second run would be followed by a digit, not by the dot).
\<close>

definition matchVersionAt :: "string \<Rightarrow> string option" where
  "matchVersionAt s =
     (let d1 = takeWhile isDigit s; r1 = dropWhile isDigit s
      in if d1 = [] then None
         else (case r1 of
                 [] \<Rightarrow> None
               | c1 # r2 \<Rightarrow>
                   if c1 \<noteq> CHR ''.'' then None
                   else (let d2 = takeWhile isDigit r2; r3 = dropWhile isDigit r2
                         in if d2 = [] then None
                            else (case r3 of
                                    [] \<Rightarrow> None
                                  | c2 # r4 \<Rightarrow>
                                      if c2 \<noteq> CHR ''.'' then None
                                      else (let d3 = takeWhile isDigit r4
                                            in if d3 = [] then None
                                               else Some (d1 @ ''.'' @ d2 @ ''.'' @ d3))))))"

text \<open>\<^verbatim>\<open>constraint.match(...)\<close>: the leftmost match, if there is one.\<close>

fun firstVersionMatch :: "string \<Rightarrow> string option" where
  "firstVersionMatch [] = None"
| "firstVersionMatch (c # cs) =
     (case matchVersionAt (c # cs) of
        Some m \<Rightarrow> Some m
      | None \<Rightarrow> firstVersionMatch cs)"

definition extractVersionFromConstraint :: "string \<Rightarrow> string" where
  "extractVersionFromConstraint constraint =
     (if constraint = [] then ''1.0.0''
      else (case firstVersionMatch constraint of
              Some m \<Rightarrow> m
            | None \<Rightarrow> if trim constraint = [] then ''1.0.0'' else trim constraint))"

subsection \<open>The range search as the specification words it\<close>

text \<open>
  The specification describes the search by the lines themselves. A line is the section
  header when its trimmed text is the section name followed by a colon; the header
  governing a position is the last header line earlier it. A line closes the section when
  it is indented no deeper than the governing header and ends in a colon, and it names the
  package when its trimmed text begins with the package name followed by a colon. The
  first line under a header that closes the section or names the package decides.
\<close>

definition isHeader :: "string \<Rightarrow> string \<Rightarrow> bool" where
  "isHeader sectionName l = (trim l = sectionName @ '':'')"

definition headerIndent :: "string \<Rightarrow> string list \<Rightarrow> int option" where
  "headerIndent sectionName earlier =
     (let headers = filter (isHeader sectionName) earlier
      in if headers = [] then None else Some (search_nonspace (last headers)))"

definition closesSection :: "int \<Rightarrow> string \<Rightarrow> bool" where
  "closesSection ind l = (search_nonspace l \<le> ind \<and> suffix '':'' (trim l))"

definition namesPackage :: "string \<Rightarrow> string \<Rightarrow> bool" where
  "namesPackage packageName l = prefix (packageName @ '':'') (trim l)"

definition decides :: "string \<Rightarrow> string \<Rightarrow> string list \<Rightarrow> nat \<Rightarrow> bool" where
  "decides packageName sectionName lns i =
     (i < length lns \<and> \<not> isHeader sectionName (lns ! i) \<and>
      (case headerIndent sectionName (take i lns) of
         None \<Rightarrow> False
       | Some ind \<Rightarrow> closesSection ind (lns ! i) \<or> namesPackage packageName (lns ! i)))"

definition lineRange :: "nat \<Rightarrow> string \<Rightarrow> Range" where
  "lineRange i l =
     \<lparr>range_start = \<lparr>line = i, character = search_nonspace l\<rparr>,
      range_end = \<lparr>line = i, character = int (length l)\<rparr>\<rparr>"

definition firstDecision :: "string \<Rightarrow> string \<Rightarrow> string list \<Rightarrow> Range option" where
  "firstDecision packageName sectionName lns =
     (case find (decides packageName sectionName lns) [0..<length lns] of
        None \<Rightarrow> None
      | Some i \<Rightarrow>
          (case headerIndent sectionName (take i lns) of
             None \<Rightarrow> None
           | Some ind \<Rightarrow>
               if closesSection ind (lns ! i) then None
               else Some (lineRange i (lns ! i))))"

definition findPackageRange_spec :: "string \<Rightarrow> string \<Rightarrow> string \<Rightarrow> Range option" where
  "findPackageRange_spec text packageName sectionName =
     firstDecision packageName sectionName (js_split (CHR 0x0A) text)"

section \<open>The registry client (pub-api-service.ts)\<close>

text \<open>
  Decimal rendering of a number inside a template string (\<^verbatim>\<open>`${page}`\<close>), for integers.
\<close>

function showNat :: "nat \<Rightarrow> string" where
  "showNat n =
     (if n < 10 then [char_of (n + of_char (CHR ''0''))]
      else showNat (n div 10) @ [char_of (n mod 10 + of_char (CHR ''0''))])"
  by pat_completeness auto
termination
  by (relation "measure id") auto

declare showNat.simps [simp del]

definition showInt :: "int \<Rightarrow> string" where
  "showInt i = (if i < 0 then ''-'' @ showNat (nat (- i)) else showNat (nat i))"

text \<open>
  The records of \<^verbatim>\<open>pub-types.ts\<close> that the client reads, with the nested objects
  flattened and an optional field as an option. Of \<open>PubPackageDetails\<close> the fields
  \<open>dependencies\<close>, \<open>dev_dependencies\<close> and \<open>metrics\<close> are read nowhere in the modelled code
  and are left out. Scores are JSON numbers, kept exact.
\<close>

record PubPackageDetails =
  pd_name :: string
  latest_version :: string
  pubspec_name :: string
  pubspec_description :: "string option"
  pubspec_homepage :: "string option"
  pubspec_repository :: "string option"
  environment_sdk :: "string option"
  environment_flutter :: "string option"

record Score =
  grantedPoints :: "int option"
  maxPoints :: "int option"
  likeCount :: "int option"
  popularityScore :: "rat option"

record PubPackageSearchResult =
  sr_package :: string
  sr_description :: "string option"
  sr_tags :: "string list option"
  sr_version :: "string option"
  sr_score :: "Score option"

record PubPackage =
  pkg_name :: string
  pkg_version :: string
  pkg_description :: string
  pkg_homepage :: "string option"
  pkg_repository :: "string option"
  pkg_popularity :: int
  pkg_likes :: int
  pkg_points :: int
  pkg_tags :: "string list"
  pkg_isFlutterPackage :: bool
  pkg_isDartPackage :: bool

text \<open>
  The cache is untyped (\<^verbatim>\<open>CacheEntry<any>\<close>): what it holds is a list of packages or a
  details record, and a read casts without a check.
\<close>

datatype cached = Packages "PubPackage list" | Details PubPackageDetails

text \<open>
  What a failed \<^verbatim>\<open>axios.get\<close> throws, by the fields \<open>getErrorMessage\<close> looks at: an error
  with a response (status and status text, for example 404), an error with a request but
  no response (network failure, timeout), and any other error with its message.
\<close>

datatype js_error = ResponseError nat string | RequestError | OtherError string

text \<open>
  The remote registry: what a GET of the search endpoint (query, page, size) and of the
  package endpoint (name) gives. A response that arrives has the declared shape.
\<close>

record Registry =
  search_endpoint :: "string \<Rightarrow> int \<Rightarrow> int \<Rightarrow> js_error + PubPackageSearchResult list"
  package_endpoint :: "string \<Rightarrow> js_error + PubPackageDetails"

datatype request = SearchRequest string int int | PackageRequest string

text \<open>
  The state the client works on: the cache service, the number of clock readings taken so
  far, the HTTP requests issued and the error notifications shown, both oldest first. The
  clock is a function from the number of the reading to the time read, so that every
  reading may differ; a reading is also counted where the source takes none (\<open>get\<close> on a
  missing key).
\<close>

record World =
  cacheService :: "cached CacheService"
  clockReads :: nat
  requests :: "request list"
  errorMessages :: "string list"

definition dateNow :: "(nat \<Rightarrow> int) \<Rightarrow> World \<Rightarrow> int \<times> World" where
  "dateNow clock w = (clock (clockReads w), w\<lparr>clockReads := clockReads w + 1\<rparr>)"

definition cache_has :: "(nat \<Rightarrow> int) \<Rightarrow> string \<Rightarrow> World \<Rightarrow> bool \<times> World" where
  "cache_has clock key w =
     (case dateNow clock w of (now, w1) \<Rightarrow>
        (case has now key (cacheService w1) of (b, c) \<Rightarrow> (b, w1\<lparr>cacheService := c\<rparr>)))"

definition cache_get :: "(nat \<Rightarrow> int) \<Rightarrow> string \<Rightarrow> World \<Rightarrow> cached option \<times> World" where
  "cache_get clock key w =
     (case dateNow clock w of (now, w1) \<Rightarrow>
        (case get now key (cacheService w1) of (v, c) \<Rightarrow> (v, w1\<lparr>cacheService := c\<rparr>)))"

definition cache_set ::
  "(nat \<Rightarrow> int) \<Rightarrow> Config \<Rightarrow> string \<Rightarrow> cached \<Rightarrow> int \<Rightarrow> World \<Rightarrow> World" where
  "cache_set clock cfg key v expirationSeconds w =
     (case dateNow clock w of (now1, w1) \<Rightarrow>
        (case dateNow clock w1 of (now2, w2) \<Rightarrow>
           w2\<lparr>cacheService :=
                set_cache now1 now2 cfg key (Some v) (Some expirationSeconds) (cacheService w2)\<rparr>))"

text \<open>
  The \<^verbatim>\<open>try\<close> block of \<open>getPackageDetails\<close> with its \<^verbatim>\<open>catch\<close>: one GET; on failure the error
  is logged to the console and \<^verbatim>\<open>null\<close> is returned.
\<close>

definition fetchPackageDetails ::
  "(nat \<Rightarrow> int) \<Rightarrow> Config \<Rightarrow> Registry \<Rightarrow> string \<Rightarrow> World \<Rightarrow> cached option \<times> World" where
  "fetchPackageDetails clock cfg reg packageName w =
     (let cacheKey = ''package:'' @ packageName;
          w1 = w\<lparr>requests := requests w @ [PackageRequest packageName]\<rparr>
      in case package_endpoint reg packageName of
           Inl error \<Rightarrow> (None, w1)
         | Inr response_data \<Rightarrow>
             (Some (Details response_data),
              if isEnabled cfg
              then cache_set clock cfg cacheKey (Details response_data) 3600 w1
              else w1))"

definition getPackageDetails ::
  "(nat \<Rightarrow> int) \<Rightarrow> Config \<Rightarrow> Registry \<Rightarrow> string \<Rightarrow> World \<Rightarrow> cached option \<times> World" where
  "getPackageDetails clock cfg reg packageName w =
     (let cacheKey = ''package:'' @ packageName
      in if isEnabled cfg
         then (case cache_has clock cacheKey w of
                 (True, w1) \<Rightarrow> cache_get clock cacheKey w1
               | (False, w1) \<Rightarrow> fetchPackageDetails clock cfg reg packageName w1)
         else fetchPackageDetails clock cfg reg packageName w)"

text \<open>
  \<^verbatim>\<open>details?.latest?.version || null\<close>: a cached value that is not a details record has no
  \<open>latest\<close>, and an empty version string is falsy.
\<close>

definition getLatestVersion ::
  "(nat \<Rightarrow> int) \<Rightarrow> Config \<Rightarrow> Registry \<Rightarrow> string \<Rightarrow> World \<Rightarrow> string option \<times> World" where
  "getLatestVersion clock cfg reg packageName w =
     (case getPackageDetails clock cfg reg packageName w of
        (Some (Details details), w1) \<Rightarrow>
          (if latest_version details = [] then None else Some (latest_version details), w1)
      | (Some (Packages ps), w1) \<Rightarrow> (None, w1)
      | (None, w1) \<Rightarrow> (None, w1))"

text \<open>
  \<open>checkForUpdates\<close>: the declared dependencies are the entries of the \<^verbatim>\<open>Record\<close> in key
  order, the result is the \<^verbatim>\<open>updates\<close> record. The source starts one asynchronous task per
  key and awaits them all; each task writes only its own key, and the tasks are modelled
  one after the other, in key order.
\<close>

fun checkForUpdates_loop ::
  "(nat \<Rightarrow> int) \<Rightarrow> Config \<Rightarrow> Registry \<Rightarrow> (string \<times> string) list \<Rightarrow> (string \<times> string) list
     \<Rightarrow> World \<Rightarrow> (string \<times> string) list \<times> World" where
  "checkForUpdates_loop clock cfg reg [] updates w = (updates, w)"
| "checkForUpdates_loop clock cfg reg ((packageName, declared) # rest) updates w =
     (case getLatestVersion clock cfg reg packageName w of
        (None, w1) \<Rightarrow> checkForUpdates_loop clock cfg reg rest updates w1
      | (Some latestVersion, w1) \<Rightarrow>
          if isVersionOutdated declared latestVersion
          then checkForUpdates_loop clock cfg reg rest
                 (AList.update packageName latestVersion updates) w1
          else checkForUpdates_loop clock cfg reg rest updates w1)"

definition checkForUpdates ::
  "(nat \<Rightarrow> int) \<Rightarrow> Config \<Rightarrow> Registry \<Rightarrow> (string \<times> string) list \<Rightarrow> World
     \<Rightarrow> (string \<times> string) list \<times> World" where
  "checkForUpdates clock cfg reg dependencies w =
     checkForUpdates_loop clock cfg reg dependencies [] w"

text \<open>
  Truthiness of an optional string, and \<^verbatim>\<open>a || b\<close> with an optional string on the left:
  \<open>a\<close> when it is present and not empty, else \<open>b\<close>.
\<close>

definition truthyString :: "string option \<Rightarrow> bool" where
  "truthyString s = (case s of None \<Rightarrow> False | Some t \<Rightarrow> t \<noteq> [])"

definition orString :: "string option \<Rightarrow> string \<Rightarrow> string" where
  "orString a b = (case a of None \<Rightarrow> b | Some s \<Rightarrow> if s = [] then b else s)"

definition isFlutterPackage :: "string list option \<Rightarrow> PubPackageDetails \<Rightarrow> bool" where
  "isFlutterPackage tags details =
     (let ts = (case tags of None \<Rightarrow> [] | Some t \<Rightarrow> t)
      in ''flutter'' \<in> set ts \<or> ''flutter-package'' \<in> set ts
         \<or> truthyString (environment_flutter details))"

definition isDartPackage :: "string list option \<Rightarrow> PubPackageDetails \<Rightarrow> bool" where
  "isDartPackage tags details =
     (let ts = (case tags of None \<Rightarrow> [] | Some t \<Rightarrow> t)
      in ''dart'' \<in> set ts \<or> ''dart-package'' \<in> set ts
         \<or> truthyString (environment_sdk details))"

text \<open>The object literal that \<open>convertSearchResultsToPackages\<close> builds for one hit.\<close>

definition toPubPackage :: "PubPackageSearchResult \<Rightarrow> PubPackageDetails \<Rightarrow> PubPackage" where
  "toPubPackage result packageDetails =
     \<lparr>pkg_name = sr_package result,
      pkg_version = latest_version packageDetails,
      pkg_description =
        orString (sr_description result) (orString (pubspec_description packageDetails) []),
      pkg_homepage = pubspec_homepage packageDetails,
      pkg_repository = pubspec_repository packageDetails,
      pkg_popularity =
        round ((case sr_score result of
                  None \<Rightarrow> 0
                | Some sc \<Rightarrow> (case popularityScore sc of None \<Rightarrow> 0 | Some p \<Rightarrow> p)) * 100),
      pkg_likes =
        (case sr_score result of
           None \<Rightarrow> 0
         | Some sc \<Rightarrow> (case likeCount sc of None \<Rightarrow> 0 | Some n \<Rightarrow> n)),
      pkg_points =
        (case sr_score result of
           None \<Rightarrow> 0
         | Some sc \<Rightarrow> (case grantedPoints sc of None \<Rightarrow> 0 | Some n \<Rightarrow> n)),
      pkg_tags = (case sr_tags result of None \<Rightarrow> [] | Some t \<Rightarrow> t),
      pkg_isFlutterPackage = isFlutterPackage (sr_tags result) packageDetails,
      pkg_isDartPackage = isDartPackage (sr_tags result) packageDetails\<rparr>"

text \<open>
  \<open>convertSearchResultsToPackages\<close>: one \<open>getPackageDetails\<close> per hit, hits without details
  skipped. A cached value under the package's key that is not a details record is truthy
  and has no \<open>latest\<close>, so reading \<^verbatim>\<open>packageDetails.latest.version\<close> throws a TypeError, which
  leaves the function.
\<close>

fun convertSearchResultsToPackages ::
  "(nat \<Rightarrow> int) \<Rightarrow> Config \<Rightarrow> Registry \<Rightarrow> PubPackageSearchResult list \<Rightarrow> PubPackage list
     \<Rightarrow> World \<Rightarrow> (js_error + PubPackage list) \<times> World" where
  "convertSearchResultsToPackages clock cfg reg [] packages w = (Inr packages, w)"
| "convertSearchResultsToPackages clock cfg reg (result # rest) packages w =
     (case getPackageDetails clock cfg reg (sr_package result) w of
        (None, w1) \<Rightarrow> convertSearchResultsToPackages clock cfg reg rest packages w1
      | (Some (Details packageDetails), w1) \<Rightarrow>
          convertSearchResultsToPackages clock cfg reg rest
            (packages @ [toPubPackage result packageDetails]) w1
      | (Some (Packages ps), w1) \<Rightarrow>
          (Inl (OtherError ''Cannot read properties of undefined (reading 'version')''), w1))"

definition getErrorMessage :: "js_error \<Rightarrow> string" where
  "getErrorMessage error =
     (case error of
        ResponseError status statusText \<Rightarrow> ''HTTP '' @ showNat status @ '': '' @ statusText
      | RequestError \<Rightarrow> ''Network error - check your internet connection''
      | OtherError message \<Rightarrow> if message = [] then ''Unknown error occurred'' else message)"

text \<open>\<^verbatim>\<open>Math.min(config.get<number>('maxSearchResults', 20), 50)\<close>\<close>

definition searchSize :: "Config \<Rightarrow> int" where
  "searchSize cfg = min (case cfg_maxSearchResults cfg of None \<Rightarrow> 20 | Some n \<Rightarrow> n) 50"

definition searchKey :: "string \<Rightarrow> int \<Rightarrow> string" where
  "searchKey query page = ''search:'' @ query @ '':'' @ showInt page"

text \<open>The \<^verbatim>\<open>catch\<close> block of \<open>searchPackages\<close>: log, notify, return the empty list.\<close>

definition searchFailed :: "js_error \<Rightarrow> World \<Rightarrow> cached \<times> World" where
  "searchFailed error w =
     (Packages [],
      w\<lparr>errorMessages :=
           errorMessages w @ [''Failed to search packages: '' @ getErrorMessage error]\<rparr>)"

text \<open>The \<^verbatim>\<open>try\<close> block of \<open>searchPackages\<close> with its \<^verbatim>\<open>catch\<close>.\<close>

definition fetchSearch ::
  "(nat \<Rightarrow> int) \<Rightarrow> Config \<Rightarrow> Registry \<Rightarrow> string \<Rightarrow> int \<Rightarrow> World \<Rightarrow> cached \<times> World" where
  "fetchSearch clock cfg reg query page w =
     (let w1 = w\<lparr>requests := requests w @ [SearchRequest query page (searchSize cfg)]\<rparr>
      in case search_endpoint reg query page (searchSize cfg) of
           Inl error \<Rightarrow> searchFailed error w1
         | Inr response_packages \<Rightarrow>
             (case convertSearchResultsToPackages clock cfg reg response_packages [] w1 of
                (Inl error, w2) \<Rightarrow> searchFailed error w2
              | (Inr packages, w2) \<Rightarrow>
                  (Packages packages,
                   if isEnabled cfg
                   then cache_set clock cfg (searchKey query page) (Packages packages) 1800 w2
                   else w2)))"

text \<open>
  \<open>searchPackages\<close>: on a cache hit \<^verbatim>\<open>get(cacheKey) || []\<close>, where \<open>get\<close> reads the clock again
  and may find the entry expired by then.
\<close>

definition searchPackages ::
  "(nat \<Rightarrow> int) \<Rightarrow> Config \<Rightarrow> Registry \<Rightarrow> string \<Rightarrow> int \<Rightarrow> World \<Rightarrow> cached \<times> World" where
  "searchPackages clock cfg reg query page w =
     (if isEnabled cfg
      then (case cache_has clock (searchKey query page) w of
              (True, w1) \<Rightarrow>
                (case cache_get clock (searchKey query page) w1 of
                   (None, w2) \<Rightarrow> (Packages [], w2)
                 | (Some v, w2) \<Rightarrow> (v, w2))
            | (False, w1) \<Rightarrow> fetchSearch clock cfg reg query page w1)
      else fetchSearch clock cfg reg query page w)"

subsection \<open>Example configurations, states and registries\<close>

text \<open>
  The configuration with nothing set, the state of a freshly started client with an empty
  cache, a registry every request to which fails with a given error, and a registry that
  knows every package at one given latest version and finds nothing on search.
\<close>

definition defaultConfig :: Config where
  "defaultConfig =
     \<lparr>cfg_autoRunPubGet = None, cfg_enableCache = None, cfg_cacheExpiration = None,
      cfg_maxSearchResults = None\<rparr>"

definition emptyWorld :: World where
  "emptyWorld =
     \<lparr>cacheService = \<lparr>cache = [], globalState = None\<rparr>, clockReads = 0, requests = [],
      errorMessages = []\<rparr>"

definition failingRegistry :: "js_error \<Rightarrow> Registry" where
  "failingRegistry e =
     \<lparr>search_endpoint = (\<lambda>query page size. Inl e), package_endpoint = (\<lambda>name. Inl e)\<rparr>"

definition registryWithLatest :: "string \<Rightarrow> Registry" where
  "registryWithLatest v =
     \<lparr>search_endpoint = (\<lambda>query page size. Inr []),
      package_endpoint =
        (\<lambda>name. Inr \<lparr>pd_name = name, latest_version = v, pubspec_name = name,
                      pubspec_description = None, pubspec_homepage = None,
                      pubspec_repository = None, environment_sdk = None,
                      environment_flutter = None\<rparr>)\<rparr>"

section \<open>The manifest accessor (workspace-service.ts)\<close>

text \<open>
  What \<open>parseYaml\<close> returns for a manifest: \<^verbatim>\<open>null\<close>, a scalar, a sequence (a JavaScript
  array) or a map (a plain object, its keys in document order, each key once). Numbers
  are integers in the model.
\<close>

datatype yaml =
    YNull
  | YBool bool
  | YNum int
  | YStr string
  | YSeq "yaml list"
  | YMap "(string \<times> yaml) list"

text \<open>JavaScript truthiness of a parsed value.\<close>

fun truthy :: "yaml \<Rightarrow> bool" where
  "truthy YNull = False"
| "truthy (YBool b) = b"
| "truthy (YNum n) = (n \<noteq> 0)"
| "truthy (YStr s) = (s \<noteq> [])"
| "truthy (YSeq xs) = True"
| "truthy (YMap m) = True"

text \<open>
  \<^verbatim>\<open>String(v)\<close>: a string is itself, an array is its elements joined by commas with
  \<^verbatim>\<open>null\<close> elements empty, an object is \<^verbatim>\<open>[object Object]\<close>.
\<close>

fun joinComma :: "string list \<Rightarrow> string" where
  "joinComma [] = []"
| "joinComma [s] = s"
| "joinComma (s # t # ss) = s @ '','' @ joinComma (t # ss)"

fun jsString :: "yaml \<Rightarrow> string"
  and jsElements :: "yaml list \<Rightarrow> string list" where
  "jsString YNull = ''null''"
| "jsString (YBool b) = (if b then ''true'' else ''false'')"
| "jsString (YNum n) = showInt n"
| "jsString (YStr s) = s"
| "jsString (YSeq xs) = joinComma (jsElements xs)"
| "jsString (YMap m) = ''[object Object]''"
| "jsElements [] = []"
| "jsElements (x # xs) = (if x = YNull then [] else jsString x) # jsElements xs"

text \<open>
  A file as the service sees it: \<open>parseYaml\<close> throws on its content, or returns a
  document. A manifest file is represented by the document it parses to, so that a file
  written with \<open>stringifyYaml\<close> parses back to the document that was written: the yaml
  library is taken to round-trip the documents this service writes.
\<close>

datatype manifest_file = Unparsable | Document yaml

record DependencyInfo =
  dep_name :: string
  dep_version :: string
  dep_isDev :: bool
  dep_isOutdated :: bool
  dep_latestVersion :: "string option"


text \<open>
  The project's name is \<^verbatim>\<open>pubspec.name\<close> as parsed, whatever truthy value that is.
\<close>

record WorkspaceProject =
  proj_name :: yaml
  proj_path :: string
  proj_pubspecPath :: string
  proj_dependencies :: "DependencyInfo list"

text \<open>
  The state the service works on: the files by path, the list of projects, and the state
  of the registry client. Notifications, the console and the terminal in which
  \<^verbatim>\<open>flutter pub get\<close> is started are not part of the state.
\<close>

record Workspace =
  files :: "string \<Rightarrow> manifest_file option"
  projects :: "WorkspaceProject list"
  client :: World

text \<open>
  \<^verbatim>\<open>path.join(projectPath, 'pubspec.yaml')\<close>, for a project path that is normalised and
  has no trailing separator.
\<close>

definition pubspecPathOf :: "string \<Rightarrow> string" where
  "pubspecPathOf projectPath = projectPath @ ''/pubspec.yaml''"

text \<open>
  \<open>formatVersion\<close>: the fallback for a falsy version, else the version without one leading
  \<^verbatim>\<open>^\<close> or \<^verbatim>\<open>~\<close> (\<^verbatim>\<open>version.replace(/^[\^~]/, '')\<close>) behind a caret.
\<close>

definition formatVersion :: "string \<Rightarrow> string" where
  "formatVersion version =
     (if version = [] then ''^1.0.0''
      else (let cleanVersion =
                  (case version of
                     [] \<Rightarrow> []
                   | c # cs \<Rightarrow> if c = CHR ''^'' \<or> c = CHR ''~'' then cs else version)
            in ''^'' @ cleanVersion))"

text \<open>
  \<^verbatim>\<open>isDev: boolean = false\<close>: an argument that is left out is \<open>None\<close> and takes the default.
\<close>

definition isDevOrDefault :: "bool option \<Rightarrow> bool" where
  "isDevOrDefault isDev = (case isDev of None \<Rightarrow> False | Some b \<Rightarrow> b)"

definition sectionOf :: "bool \<Rightarrow> string" where
  "sectionOf isDev = (if isDev then ''dev_dependencies'' else ''dependencies'')"

text \<open>
  The statements of \<open>addDependency\<close> that change the parsed manifest:
  \<^verbatim>\<open>
  if (!pubspec[dependencySection]) { pubspec[dependencySection] = {}; }
  pubspec[dependencySection][packageName] = this.formatVersion(version);
  \<close>
  \<open>ensureSection\<close> is the value of \<^verbatim>\<open>pubspec[dependencySection]\<close> after the first of them,
  for a manifest that is a map: the section as it is when truthy, else the empty map.
\<close>

definition ensureSection :: "(string \<times> yaml) list \<Rightarrow> string \<Rightarrow> yaml" where
  "ensureSection pubspec dependencySection =
     (case map_of pubspec dependencySection of
        None \<Rightarrow> YMap []
      | Some v \<Rightarrow> if truthy v then v else YMap [])"

text \<open>
  The result of the two statements is the document that is then written, or the
  TypeError thrown: reading a property of \<^verbatim>\<open>null\<close> throws, and so does creating a property
  on a string, number or boolean (the module is in strict mode). A property set on an
  array is kept by the array object and not written by \<open>stringifyYaml\<close>; package names that
  are array indices or \<^verbatim>\<open>length\<close> are left aside.
\<close>

definition setDependency :: "yaml \<Rightarrow> string \<Rightarrow> string \<Rightarrow> string \<Rightarrow> js_error + yaml" where
  "setDependency pubspec dependencySection packageName version =
     (case pubspec of
        YNull \<Rightarrow> Inl (OtherError ''TypeError'')
      | YBool b \<Rightarrow> Inl (OtherError ''TypeError'')
      | YNum n \<Rightarrow> Inl (OtherError ''TypeError'')
      | YStr s \<Rightarrow> Inl (OtherError ''TypeError'')
      | YSeq xs \<Rightarrow> Inr (YSeq xs)
      | YMap m \<Rightarrow>
          (case ensureSection m dependencySection of
             YMap deps \<Rightarrow>
               Inr (YMap (AList.update dependencySection
                            (YMap (AList.update packageName (YStr (formatVersion version)) deps))
                            m))
           | YSeq xs \<Rightarrow> Inr (YMap m)
           | _ \<Rightarrow> Inl (OtherError ''TypeError'')))"

text \<open>
  One round of the two loops of \<open>extractDependencies\<close> over the entries of a section;
  \<open>sdkName\<close> is the name the loop skips (\<open>flutter\<close>, \<open>flutter_test\<close>).
\<close>

fun extractSection ::
  "(nat \<Rightarrow> int) \<Rightarrow> Config \<Rightarrow> Registry \<Rightarrow> string \<Rightarrow> bool \<Rightarrow> (string \<times> yaml) list
     \<Rightarrow> DependencyInfo list \<Rightarrow> World \<Rightarrow> DependencyInfo list \<times> World" where
  "extractSection clock cfg reg sdkName isDev [] dependencies w = (dependencies, w)"
| "extractSection clock cfg reg sdkName isDev ((name, version) # rest) dependencies w =
     (if name \<noteq> [] \<and> name \<noteq> sdkName \<and> truthy version
      then (case getLatestVersion clock cfg reg name w of
              (latestVersion, w1) \<Rightarrow>
                (let versionString = jsString version
                 in extractSection clock cfg reg sdkName isDev rest
                      (dependencies @
                        [\<lparr>dep_name = name, dep_version = versionString, dep_isDev = isDev,
                          dep_isOutdated =
                            (case latestVersion of
                               None \<Rightarrow> False
                             | Some latest \<Rightarrow> isVersionOutdated versionString latest),
                          dep_latestVersion = latestVersion\<rparr>])
                      w1))
      else extractSection clock cfg reg sdkName isDev rest dependencies w)"

text \<open>
  \<^verbatim>\<open>Object.entries\<close> of a section that is truthy and of type \<^verbatim>\<open>object\<close>: the entries of a
  map, the elements of an array under their indices; \<open>None\<close> for every other value.
\<close>

definition objectEntries :: "yaml option \<Rightarrow> (string \<times> yaml) list option" where
  "objectEntries v =
     (case v of
        Some (YMap m) \<Rightarrow> Some m
      | Some (YSeq xs) \<Rightarrow> Some (zip (map showNat [0..<length xs]) xs)
      | _ \<Rightarrow> None)"

definition extractDependencies ::
  "(nat \<Rightarrow> int) \<Rightarrow> Config \<Rightarrow> Registry \<Rightarrow> (string \<times> yaml) list \<Rightarrow> World
     \<Rightarrow> DependencyInfo list \<times> World" where
  "extractDependencies clock cfg reg pubspec w =
     (case (case objectEntries (map_of pubspec ''dependencies'') of
              None \<Rightarrow> ([], w)
            | Some entries \<Rightarrow> extractSection clock cfg reg ''flutter'' False entries [] w) of
        (dependencies, w1) \<Rightarrow>
          (case objectEntries (map_of pubspec ''dev_dependencies'') of
             None \<Rightarrow> (dependencies, w1)
           | Some entries \<Rightarrow>
               extractSection clock cfg reg ''flutter_test'' True entries dependencies w1))"

text \<open>
  \<open>createProjectFromPath\<close>: \<^verbatim>\<open>null\<close> when the file cannot be read or parsed, or when the
  document is falsy or has no truthy \<open>name\<close> (only a map has properties of its own).
\<close>

definition createProjectFromPath ::
  "(nat \<Rightarrow> int) \<Rightarrow> Config \<Rightarrow> Registry \<Rightarrow> string \<Rightarrow> Workspace
     \<Rightarrow> WorkspaceProject option \<times> Workspace" where
  "createProjectFromPath clock cfg reg projectPath s =
     (case files s (pubspecPathOf projectPath) of
        None \<Rightarrow> (None, s)
      | Some Unparsable \<Rightarrow> (None, s)
      | Some (Document (YMap pubspec)) \<Rightarrow>
          (case map_of pubspec ''name'' of
             None \<Rightarrow> (None, s)
           | Some name \<Rightarrow>
               if \<not> truthy name then (None, s)
               else (case extractDependencies clock cfg reg pubspec (client s) of
                       (dependencies, w) \<Rightarrow>
                         (Some \<lparr>proj_name = name, proj_path = projectPath,
                                proj_pubspecPath = pubspecPathOf projectPath,
                                proj_dependencies = dependencies\<rparr>,
                          s\<lparr>client := w\<rparr>)))
      | Some (Document other) \<Rightarrow> (None, s))"

text \<open>
  \<open>refreshProject\<close>: the first project with this path, if there is one, is replaced by
  the project read from the file, if that can be read.
\<close>

fun findIndex :: "('a \<Rightarrow> bool) \<Rightarrow> 'a list \<Rightarrow> nat option" where
  "findIndex P [] = None"
| "findIndex P (x # xs) =
     (if P x then Some 0 else (case findIndex P xs of None \<Rightarrow> None | Some i \<Rightarrow> Some (i + 1)))"

definition refreshProject ::
  "(nat \<Rightarrow> int) \<Rightarrow> Config \<Rightarrow> Registry \<Rightarrow> string \<Rightarrow> Workspace \<Rightarrow> Workspace" where
  "refreshProject clock cfg reg projectPath s =
     (case findIndex (\<lambda>p. proj_path p = projectPath) (projects s) of
        None \<Rightarrow> s
      | Some index \<Rightarrow>
          (case createProjectFromPath clock cfg reg projectPath s of
             (None, s1) \<Rightarrow> s1
           | (Some project, s1) \<Rightarrow> s1\<lparr>projects := (projects s1)[index := project]\<rparr>))"

text \<open>
  \<open>addDependency\<close>. The result is the boolean returned and the new state. Every exception
  inside the \<^verbatim>\<open>try\<close> block ends in the \<^verbatim>\<open>catch\<close> block, which returns false: a file that
  does not parse, and the TypeErrors of \<open>setDependency\<close>. After the write the source
  starts \<^verbatim>\<open>flutter pub get\<close> in a terminal, which changes nothing in the state, and
  refreshes the project.
\<close>

definition addDependency ::
  "(nat \<Rightarrow> int) \<Rightarrow> Config \<Rightarrow> Registry \<Rightarrow> string \<Rightarrow> string \<Rightarrow> string \<Rightarrow> bool option
     \<Rightarrow> Workspace \<Rightarrow> bool \<times> Workspace" where
  "addDependency clock cfg reg projectPath packageName version isDev s =
     (let pubspecPath = pubspecPathOf projectPath
      in case files s pubspecPath of
           None \<Rightarrow> (False, s)
         | Some Unparsable \<Rightarrow> (False, s)
         | Some (Document pubspec) \<Rightarrow>
             (let dependencySection = sectionOf (isDevOrDefault isDev)
              in case setDependency pubspec dependencySection packageName version of
                   Inl error \<Rightarrow> (False, s)
                 | Inr newContent \<Rightarrow>
                     (True,
                      refreshProject clock cfg reg projectPath
                        (s\<lparr>files := (files s)(pubspecPath \<mapsto> Document newContent)\<rparr>))))"

text \<open>
  \<open>updateDependency\<close> has its own default for \<open>isDev\<close> and passes the resulting boolean on.
\<close>

definition updateDependency ::
  "(nat \<Rightarrow> int) \<Rightarrow> Config \<Rightarrow> Registry \<Rightarrow> string \<Rightarrow> string \<Rightarrow> string \<Rightarrow> bool option
     \<Rightarrow> Workspace \<Rightarrow> bool \<times> Workspace" where
  "updateDependency clock cfg reg projectPath packageName newVersion isDev s =
     addDependency clock cfg reg projectPath packageName newVersion
       (Some (isDevOrDefault isDev)) s"

section \<open>The conflict advisor (dependency-resolver.ts)\<close>

record DependencyConflict =
  dc_packageName :: string
  dc_conflictingVersions :: "string list"
  dc_suggestedResolution :: string
  dc_reason :: string

text \<open>
  \<open>detectConflicts\<close> has the services, and through them the manifests, at hand (the
  state \<open>s\<close>) and is given the project path; it returns its list of common conflicts.
\<close>

definition detectConflicts :: "Workspace \<Rightarrow> string \<Rightarrow> DependencyConflict list" where
  "detectConflicts s projectPath =
     (let commonConflicts =
            [\<lparr>dc_packageName = ''flutter_lints'',
              dc_conflictingVersions = [''^6.0.0'', ''^5.0.0''],
              dc_suggestedResolution = ''^5.0.0'',
              dc_reason = ''Incompatible version ranges between direct and transitive dependencies''\<rparr>]
      in commonConflicts)"

section \<open>Properties of the version comparison\<close>

lemma partAt_drop: "partAt xs i = (case drop i xs of [] \<Rightarrow> 0 | x # _ \<Rightarrow> x)"
proof (cases "i < length xs")
  case True
  then show ?thesis
    by (simp add: partAt_def Cons_nth_drop_Suc [symmetric])
next
  case False
  then show ?thesis
    by (simp add: partAt_def)
qed

lemma outdatedLoop_drop:
  "outdatedLoop cs ls i = compareComponents (drop i cs) (drop i ls)"
proof (induction cs ls i rule: outdatedLoop.induct)
  case (1 cs ls i)
  show ?case
  proof (cases "i < max (length cs) (length ls)")
    case False
    then show ?thesis
      by (subst outdatedLoop.simps) simp
  next
    case True
    have step: "drop (i + 1) cs = tl (drop i cs)" "drop (i + 1) ls = tl (drop i ls)"
      by (simp_all add: drop_Suc tl_drop)
    show ?thesis
    proof (cases "partAt ls i > partAt cs i \<or> partAt cs i > partAt ls i")
      case differ: True
      then show ?thesis
        using True
        by (subst outdatedLoop.simps)
           (cases "drop i cs"; cases "drop i ls"; auto simp: partAt_drop Let_def)
    next
      case same: False
      then have "outdatedLoop cs ls i = outdatedLoop cs ls (i + 1)"
        using True by (subst outdatedLoop.simps) (simp add: Let_def)
      also have "\<dots> = compareComponents (drop (i + 1) cs) (drop (i + 1) ls)"
        using "1.IH" [OF True refl refl] same by simp
      also have "\<dots> = compareComponents (drop i cs) (drop i ls)"
        using same True unfolding step
        by (cases "drop i cs"; cases "drop i ls"; auto simp: partAt_drop)
      finally show ?thesis .
    qed
  qed
qed


section \<open>Properties of the cache\<close>

lemma foldl_cleanStep_fst:
  "fst (foldl (cleanStep now) (c, b) xs) =
     filter (\<lambda>ke. fst ke \<notin> fst ` {x \<in> set xs. now > expiresAt (snd x)}) c"
proof (induction xs arbitrary: c b)
  case Nil
  then show ?case by simp
next
  case (Cons x xs)
  show ?case
  proof (cases "now > expiresAt (snd x)")
    case True
    have "fst (foldl (cleanStep now) (c, b) (x # xs)) = fst (foldl (cleanStep now) (AList.delete (fst x) c, True) xs)"
      using True by (simp add: cleanStep_def)
    also have "\<dots> = filter (\<lambda>ke. fst ke \<notin> fst ` {x \<in> set xs. now > expiresAt (snd x)}) (AList.delete (fst x) c)"
      by (rule Cons.IH)
    also have "\<dots> = filter (\<lambda>ke. fst ke \<notin> fst ` {y \<in> set (x # xs). now > expiresAt (snd y)}) c"
      using True by (auto simp: AList.delete_eq intro!: filter_cong)
    finally show ?thesis .
  next
    case False
    then show ?thesis
      using Cons.IH [of c b] by (auto simp: cleanStep_def intro!: filter_cong)
  qed
qed

lemma foldl_cleanStep_snd:
  "snd (foldl (cleanStep now) (c, b) xs) = (b \<or> (\<exists>x \<in> set xs. now > expiresAt (snd x)))"
  by (induction xs arbitrary: c b) (auto simp: cleanStep_def)


lemma cleanExpiredEntries_cache:
  "cache (cleanExpiredEntries now s) =
     filter (\<lambda>ke. fst ke \<notin> fst ` {x \<in> set (cache s). now > expiresAt (snd x)}) (cache s)"
proof -
  obtain c b where cb: "foldl (cleanStep now) (cache s, False) (cache s) = (c, b)"
    by (cases "foldl (cleanStep now) (cache s, False) (cache s)")
  have "c = fst (foldl (cleanStep now) (cache s, False) (cache s))"
    by (simp add: cb)
  then have "c = filter (\<lambda>ke. fst ke \<notin> fst ` {x \<in> set (cache s). now > expiresAt (snd x)}) (cache s)"
    by (simp only: foldl_cleanStep_fst)
  then show ?thesis
    by (simp add: cleanExpiredEntries_def cb saveCacheToStorage_def)
qed

lemma swept_not_expired:
  assumes "map_of (cache (cleanExpiredEntries now s)) key = Some entry"
  shows "\<not> now > expiresAt entry"
proof
  assume ex: "now > expiresAt entry"
  from assms have "(key, entry) \<in> set (cache (cleanExpiredEntries now s))"
    by (rule map_of_SomeD)
  then have mem: "(key, entry) \<in> set (cache s)"
    and keep: "key \<notin> fst ` {x \<in> set (cache s). now > expiresAt (snd x)}"
    by (simp_all add: cleanExpiredEntries_cache)
  from mem ex have "key \<in> fst ` {x \<in> set (cache s). now > expiresAt (snd x)}"
    by force
  with keep show False by contradiction
qed

lemma swept_keeps_live:
  assumes d: "distinct (map fst (cache s))"
    and m: "map_of (cache s) key = Some entry"
    and live: "\<not> now > expiresAt entry"
  shows "map_of (cache (cleanExpiredEntries now s)) key = Some entry"
proof -
  have notin: "key \<notin> fst ` {x \<in> set (cache s). now > expiresAt (snd x)}"
  proof
    assume "key \<in> fst ` {x \<in> set (cache s). now > expiresAt (snd x)}"
    then obtain e' where e': "(key, e') \<in> set (cache s)" "now > expiresAt e'"
      by auto
    from d e' have "map_of (cache s) key = Some e'"
      by simp
    with m have "e' = entry" by simp
    with e' live show False by simp
  qed
  have "(key, entry) \<in> set (cache s)"
    using m by (rule map_of_SomeD)
  with notin have "(key, entry) \<in> set (cache (cleanExpiredEntries now s))"
    by (simp add: cleanExpiredEntries_cache)
  moreover have "distinct (map fst (cache (cleanExpiredEntries now s)))"
    using d by (simp add: cleanExpiredEntries_cache distinct_map_filter)
  ultimately show ?thesis
    by simp
qed

lemma get_expired:
  assumes "map_of (cache s) key = Some entry" "now > expiresAt entry"
  shows "fst (get now key s) = None"
    and "map_of (cache (snd (get now key s))) key = None"
    and "globalState (snd (get now key s)) = Some (cache (snd (get now key s)))"
  using assms by (simp_all add: get_def saveCacheToStorage_def AList.delete_conv')

lemma get_Some_iff:
  "fst (get now key s) = Some v \<longleftrightarrow>
     (\<exists>entry. map_of (cache s) key = Some entry \<and> data entry = Some v \<and> \<not> now > expiresAt entry)"
  by (auto simp: get_def split: option.splits)

lemma get_live:
  assumes "map_of (cache s) key = Some entry" "\<not> now > expiresAt entry"
  shows "get now key s = (data entry, s)"
  using assms by (simp add: get_def)

lemma set_cache_entry:
  "map_of (cache (set_cache t1 t2 cfg key v ttl s)) key =
     Some \<lparr>data = v, timestamp = t1,
           expiresAt = t2 + (case ttl of None \<Rightarrow> cacheExpiration cfg
                                  | Some n \<Rightarrow> if n = 0 then cacheExpiration cfg else n) * 1000\<rparr>"
  by (simp add: set_cache_def saveCacheToStorage_def Let_def AList.update_conv')

lemma set_cache_globalState:
  "globalState (set_cache t1 t2 cfg key v ttl s) = Some (cache (set_cache t1 t2 cfg key v ttl s))"
  by (simp add: set_cache_def saveCacheToStorage_def Let_def)

lemma set_cache_distinct:
  "distinct (map fst (cache s)) \<Longrightarrow> distinct (map fst (cache (set_cache t1 t2 cfg key v ttl s)))"
  by (simp add: set_cache_def saveCacheToStorage_def Let_def AList.distinct_update)

text \<open>
  C3. Cache expiry: \<open>get\<close> never returns a stored value once the time it reads exceeds the
  entry's \<open>expiresAt\<close>, and it deletes the expired entry; a value \<open>get\<close> returns is the
  payload of an entry that has not expired; after construction (load and sweep at time
  \<open>now\<close>) no entry of the map is expired at \<open>now\<close>; and after \<open>set\<close> with a TTL of one
  second, a \<open>get\<close> more than 1000 ms later returns \<^verbatim>\<open>null\<close> and a following \<open>has\<close>
  returns false.
\<close>

theorem cache_expiry_invariant:
  "(\<forall>now key (s::'v CacheService) entry.
      map_of (cache s) key = Some entry \<and> now > expiresAt entry \<longrightarrow>
        fst (get now key s) = None \<and> map_of (cache (snd (get now key s))) key = None)
   \<and> (\<forall>now key (s::'v CacheService) v.
        fst (get now key s) = Some v \<longrightarrow>
          (\<exists>entry. map_of (cache s) key = Some entry \<and> data entry = Some v
                   \<and> \<not> now > expiresAt entry))
   \<and> (\<forall>now stored key (entry::'v CacheEntry).
        map_of (cache (newCacheService now stored)) key = Some entry \<longrightarrow> \<not> now > expiresAt entry)
   \<and> (\<forall>t1 t2 cfg key (v::'v option) s now now'.
        now > t2 + 1000 \<longrightarrow>
          fst (get now key (set_cache t1 t2 cfg key v (Some 1) s)) = None
          \<and> fst (has now' key (snd (get now key (set_cache t1 t2 cfg key v (Some 1) s)))) = False)"
proof (intro conjI allI impI)
  fix now key and s :: "'v CacheService" and entry
  assume a: "map_of (cache s) key = Some entry \<and> now > expiresAt entry"
  then show "fst (get now key s) = None"
    by (simp add: get_expired(1))
  from a show "map_of (cache (snd (get now key s))) key = None"
    by (simp add: get_expired(2))
next
  fix now key and s :: "'v CacheService" and v
  assume "fst (get now key s) = Some v"
  then show "\<exists>entry. map_of (cache s) key = Some entry \<and> data entry = Some v \<and> \<not> now > expiresAt entry"
    by (simp add: get_Some_iff)
next
  fix now stored key and entry :: "'v CacheEntry"
  assume "map_of (cache (newCacheService now stored)) key = Some entry"
  then show "\<not> now > expiresAt entry"
    unfolding newCacheService_def loadCacheFromStorage_def Let_def
    by (rule swept_not_expired)
next
  fix t1 t2 :: int and cfg key and v :: "'v option" and s :: "'v CacheService" and now now' :: int
  assume late: "now > t2 + 1000"
  let ?s1 = "set_cache t1 t2 cfg key v (Some 1) s"
  let ?e = "\<lparr>data = v, timestamp = t1, expiresAt = t2 + 1 * 1000\<rparr>"
  have e: "map_of (cache ?s1) key = Some ?e"
    by (simp add: set_cache_entry)
  have ex: "now > expiresAt ?e"
    using late by simp
  show "fst (get now key ?s1) = None"
    using e ex by (rule get_expired(1))
  have gone: "map_of (cache (snd (get now key ?s1))) key = None"
    using e ex by (rule get_expired(2))
  then show "fst (has now' key (snd (get now key ?s1))) = False"
    by (simp add: has_def get_def)
qed

theorem cache_expiry_invariant_witness:
  "map_of (cache \<lparr>cache = [(''k'', \<lparr>data = Some (7::nat), timestamp = 0, expiresAt = 1000\<rparr>)],
                  globalState = None\<rparr>) ''k''
     = Some \<lparr>data = Some 7, timestamp = 0, expiresAt = 1000\<rparr>
   \<and> (1001::int) > expiresAt \<lparr>data = Some (7::nat), timestamp = 0, expiresAt = 1000\<rparr>
   \<and> fst (get 1001 ''k'' \<lparr>cache = [(''k'', \<lparr>data = Some (7::nat), timestamp = 0, expiresAt = 1000\<rparr>)],
                          globalState = None\<rparr>) = None
   \<and> fst (get 1000 ''k'' \<lparr>cache = [(''k'', \<lparr>data = Some (7::nat), timestamp = 0, expiresAt = 1000\<rparr>)],
                          globalState = None\<rparr>) = Some 7
   \<and> map_of (cache (newCacheService 5
        (Some [(''a'', \<lparr>data = Some (1::nat), timestamp = 0, expiresAt = 4\<rparr>),
               (''b'', \<lparr>data = Some 2, timestamp = 0, expiresAt = 6\<rparr>)]))) ''b''
       = Some \<lparr>data = Some 2, timestamp = 0, expiresAt = 6\<rparr>
   \<and> \<not> (5::int) > expiresAt \<lparr>data = Some (2::nat), timestamp = 0, expiresAt = 6\<rparr>
   \<and> (1001::int) > 0 + 1000
   \<and> fst (get 1001 ''k'' (set_cache 0 0 \<lparr>cfg_autoRunPubGet = None, cfg_enableCache = None,
          cfg_cacheExpiration = None, cfg_maxSearchResults = None\<rparr> ''k'' (Some (7::nat)) (Some 1)
          \<lparr>cache = [], globalState = None\<rparr>)) = None"
proof -
  note inv = cache_expiry_invariant [where 'v = nat]
  let ?e = "\<lparr>data = Some (7::nat), timestamp = 0, expiresAt = 1000\<rparr>"
  let ?s = "\<lparr>cache = [(''k'', ?e)], globalState = None\<rparr>"
  have h1: "map_of (cache ?s) ''k'' = Some ?e \<and> (1001::int) > expiresAt ?e"
    by simp
  have c1: "fst (get 1001 ''k'' ?s) = None"
    using inv h1 by blast
  have c2: "fst (get 1000 ''k'' ?s) = Some 7"
    by (simp add: get_def)
  have h3: "map_of (cache (newCacheService 5
        (Some [(''a'', \<lparr>data = Some (1::nat), timestamp = 0, expiresAt = 4\<rparr>),
               (''b'', \<lparr>data = Some 2, timestamp = 0, expiresAt = 6\<rparr>)]))) ''b''
       = Some \<lparr>data = Some 2, timestamp = 0, expiresAt = 6\<rparr>"
    by (simp add: newCacheService_def loadCacheFromStorage_def cleanExpiredEntries_def
        cleanStep_def saveCacheToStorage_def)
  have c3: "\<not> (5::int) > expiresAt \<lparr>data = Some (2::nat), timestamp = 0, expiresAt = 6\<rparr>"
    using inv h3 by blast
  have h4: "(1001::int) > 0 + 1000"
    by simp
  have c4: "fst (get 1001 ''k'' (set_cache 0 0 \<lparr>cfg_autoRunPubGet = None, cfg_enableCache = None,
          cfg_cacheExpiration = None, cfg_maxSearchResults = None\<rparr> ''k'' (Some (7::nat)) (Some 1)
          \<lparr>cache = [], globalState = None\<rparr>)) = None"
    using inv h4 by blast
  show ?thesis
    using h1 c1 c2 h3 c3 h4 c4 by blast
qed


text \<open>
  C4. Cache round trip: \<open>set\<close> stores an entry with the given payload and persists the
  map; a \<open>get\<close> that reads a time not past the entry's \<open>expiresAt\<close> returns exactly the
  payload and leaves the service unchanged; the same holds for a new service constructed
  from the persisted snapshot (loaded and swept at a time not past \<open>expiresAt\<close>), the map
  having one entry per key as a JavaScript \<^verbatim>\<open>Map\<close> has; and \<open>has\<close> is true exactly when
  \<open>get\<close> does not return \<^verbatim>\<open>null\<close>.
\<close>

theorem cache_roundtrip:
  "(\<forall>t1 t2 cfg key (v::'v option) ttl s.
      \<exists>entry. map_of (cache (set_cache t1 t2 cfg key v ttl s)) key = Some entry
             \<and> data entry = v
             \<and> globalState (set_cache t1 t2 cfg key v ttl s)
                 = Some (cache (set_cache t1 t2 cfg key v ttl s)))
   \<and> (\<forall>t1 t2 cfg key (v::'v option) ttl s now entry.
        map_of (cache (set_cache t1 t2 cfg key v ttl s)) key = Some entry
        \<and> \<not> now > expiresAt entry \<longrightarrow>
          get now key (set_cache t1 t2 cfg key v ttl s) = (v, set_cache t1 t2 cfg key v ttl s))
   \<and> (\<forall>t1 t2 cfg key (v::'v option) ttl s tload now entry.
        distinct (map fst (cache s))
        \<and> map_of (cache (set_cache t1 t2 cfg key v ttl s)) key = Some entry
        \<and> \<not> tload > expiresAt entry \<and> \<not> now > expiresAt entry \<longrightarrow>
          fst (get now key
                (newCacheService tload (globalState (set_cache t1 t2 cfg key v ttl s)))) = v)
   \<and> (\<forall>now key (s::'v CacheService).
        fst (has now key s) = (fst (get now key s) \<noteq> None)
        \<and> snd (has now key s) = snd (get now key s))"
proof (intro conjI allI impI)
  fix t1 t2 cfg key and v :: "'v option" and ttl and s :: "'v CacheService"
  show "\<exists>entry. map_of (cache (set_cache t1 t2 cfg key v ttl s)) key = Some entry
             \<and> data entry = v
             \<and> globalState (set_cache t1 t2 cfg key v ttl s)
                 = Some (cache (set_cache t1 t2 cfg key v ttl s))"
    by (simp add: set_cache_entry set_cache_globalState)
next
  fix t1 t2 cfg key and v :: "'v option" and ttl and s :: "'v CacheService" and now entry
  assume a: "map_of (cache (set_cache t1 t2 cfg key v ttl s)) key = Some entry
        \<and> \<not> now > expiresAt entry"
  then have "data entry = v"
    by (auto simp: set_cache_entry)
  with a show "get now key (set_cache t1 t2 cfg key v ttl s) = (v, set_cache t1 t2 cfg key v ttl s)"
    by (simp add: get_live)
next
  fix t1 t2 cfg key and v :: "'v option" and ttl and s :: "'v CacheService"
    and tload now entry
  let ?s1 = "set_cache t1 t2 cfg key v ttl s"
  assume a: "distinct (map fst (cache s))
        \<and> map_of (cache ?s1) key = Some entry
        \<and> \<not> tload > expiresAt entry \<and> \<not> now > expiresAt entry"
  then have dat: "data entry = v"
    by (auto simp: set_cache_entry)
  have d1: "distinct (map fst (cache ?s1))"
    using a by (simp add: set_cache_distinct)
  let ?s2 = "\<lparr>cache = [], globalState = globalState ?s1\<rparr>\<lparr>cache := cache ?s1\<rparr>"
  have new: "newCacheService tload (globalState ?s1) = cleanExpiredEntries tload ?s2"
    by (simp add: newCacheService_def loadCacheFromStorage_def set_cache_globalState)
  have "map_of (cache (cleanExpiredEntries tload ?s2)) key = Some entry"
    using d1 a by (intro swept_keeps_live) simp_all
  then have "get now key (newCacheService tload (globalState ?s1))
               = (data entry, newCacheService tload (globalState ?s1))"
    using a unfolding new by (intro get_live) simp_all
  then show "fst (get now key (newCacheService tload (globalState ?s1))) = v"
    by (simp add: dat)
next
  fix now key and s :: "'v CacheService"
  show "fst (has now key s) = (fst (get now key s) \<noteq> None)"
    by (simp add: has_def split: prod.split)
  show "snd (has now key s) = snd (get now key s)"
    by (simp add: has_def split: prod.split)
qed

theorem cache_roundtrip_witness:
  "distinct (map fst (cache \<lparr>cache = [(''a'', \<lparr>data = Some (1::nat), timestamp = 0, expiresAt = 5\<rparr>)],
                            globalState = None\<rparr>))
   \<and> map_of (cache (set_cache 10 10 \<lparr>cfg_autoRunPubGet = None, cfg_enableCache = None,
          cfg_cacheExpiration = None, cfg_maxSearchResults = None\<rparr> ''k'' (Some (7::nat)) (Some 2)
          \<lparr>cache = [(''a'', \<lparr>data = Some 1, timestamp = 0, expiresAt = 5\<rparr>)], globalState = None\<rparr>))
        ''k'' = Some \<lparr>data = Some 7, timestamp = 10, expiresAt = 2010\<rparr>
   \<and> \<not> (2000::int) > expiresAt \<lparr>data = Some (7::nat), timestamp = 10, expiresAt = 2010\<rparr>
   \<and> \<not> (2010::int) > expiresAt \<lparr>data = Some (7::nat), timestamp = 10, expiresAt = 2010\<rparr>
   \<and> fst (get 2010 ''k'' (set_cache 10 10 \<lparr>cfg_autoRunPubGet = None, cfg_enableCache = None,
          cfg_cacheExpiration = None, cfg_maxSearchResults = None\<rparr> ''k'' (Some (7::nat)) (Some 2)
          \<lparr>cache = [(''a'', \<lparr>data = Some 1, timestamp = 0, expiresAt = 5\<rparr>)], globalState = None\<rparr>))
       = Some 7
   \<and> fst (get 2010 ''k'' (newCacheService 2000 (globalState
          (set_cache 10 10 \<lparr>cfg_autoRunPubGet = None, cfg_enableCache = None,
          cfg_cacheExpiration = None, cfg_maxSearchResults = None\<rparr> ''k'' (Some (7::nat)) (Some 2)
          \<lparr>cache = [(''a'', \<lparr>data = Some 1, timestamp = 0, expiresAt = 5\<rparr>)], globalState = None\<rparr>))))
       = Some 7"
proof -
  note rt = cache_roundtrip [where 'v = nat]
  let ?cfg = "\<lparr>cfg_autoRunPubGet = None, cfg_enableCache = None,
          cfg_cacheExpiration = None, cfg_maxSearchResults = None\<rparr>"
  let ?s = "\<lparr>cache = [(''a'', \<lparr>data = Some (1::nat), timestamp = 0, expiresAt = 5\<rparr>)],
            globalState = None\<rparr>"
  let ?e = "\<lparr>data = Some (7::nat), timestamp = 10, expiresAt = 2010\<rparr>"
  have h1: "distinct (map fst (cache ?s))"
    by simp
  have h2: "map_of (cache (set_cache 10 10 ?cfg ''k'' (Some 7) (Some 2) ?s)) ''k'' = Some ?e"
    by (simp add: set_cache_def saveCacheToStorage_def Let_def)
  have h3: "\<not> (2000::int) > expiresAt ?e" "\<not> (2010::int) > expiresAt ?e"
    by simp_all
  have "get 2010 ''k'' (set_cache 10 10 ?cfg ''k'' (Some 7) (Some 2) ?s)
          = (Some 7, set_cache 10 10 ?cfg ''k'' (Some 7) (Some 2) ?s)"
    by (rule rt [THEN conjunct2, THEN conjunct1, rule_format, OF conjI [OF h2 h3(2)]])
  then have c1: "fst (get 2010 ''k'' (set_cache 10 10 ?cfg ''k'' (Some 7) (Some 2) ?s)) = Some 7"
    by simp
  have c2: "fst (get 2010 ''k'' (newCacheService 2000
              (globalState (set_cache 10 10 ?cfg ''k'' (Some 7) (Some 2) ?s)))) = Some 7"
    by (rule rt [THEN conjunct2, THEN conjunct2, THEN conjunct1, rule_format,
          OF conjI [OF h1 conjI [OF h2 conjI [OF h3(1) h3(2)]]]])
  show ?thesis
    using h1 h2 h3 c1 c2 by blast
qed


section \<open>Properties of the range search\<close>

lemma headerIndent_snoc_header:
  "isHeader sec l \<Longrightarrow> headerIndent sec (pre @ [l]) = Some (search_nonspace l)"
  by (simp add: headerIndent_def)

lemma headerIndent_snoc_other:
  "\<not> isHeader sec l \<Longrightarrow> headerIndent sec (pre @ [l]) = headerIndent sec pre"
  by (simp add: headerIndent_def)

lemma find_upt_first:
  assumes "k < n" "P k" "\<forall>j<k. \<not> P j"
  shows "find P [0..<n] = Some k"
  unfolding find_Some_iff
  using assms by (intro exI [of _ k]) simp

lemma find_upt_none:
  assumes "\<forall>j<n. \<not> P j"
  shows "find P [0..<n] = None"
  using assms by (simp add: find_None_iff)

lemma scanLines_firstDecision:
  assumes "\<forall>j<length pre. \<not> decides name sec (pre @ rest) j"
    and "inSection = (headerIndent sec pre \<noteq> None)"
    and "inSection \<Longrightarrow> headerIndent sec pre = Some sectionIndent"
  shows "scanLines name sec rest (length pre) inSection sectionIndent
           = firstDecision name sec (pre @ rest)"
  using assms
proof (induction rest arbitrary: pre inSection sectionIndent)
  case Nil
  then have "find (decides name sec pre) [0..<length pre] = None"
    by (intro find_upt_none) simp
  then show ?case
    by (simp add: firstDecision_def)
next
  case (Cons l rest)
  let ?lns = "pre @ l # rest"
  let ?i = "length pre"
  have lns: "?lns = (pre @ [l]) @ rest" and len: "length (pre @ [l]) = ?i + 1"
    by simp_all
  have at: "?lns ! ?i = l" "take ?i ?lns = pre" "?i < length ?lns"
    by simp_all
  show ?case
  proof (cases "isHeader sec l")
    case True
    have nd: "\<forall>j<length (pre @ [l]). \<not> decides name sec ((pre @ [l]) @ rest) j"
    proof (intro allI impI)
      fix j assume "j < length (pre @ [l])"
      then consider "j < ?i" | "j = ?i" by fastforce
      then show "\<not> decides name sec ((pre @ [l]) @ rest) j"
      proof cases
        case 1
        then show ?thesis using Cons.prems(1) by simp
      next
        case 2
        then show ?thesis using True by (simp add: decides_def)
      qed
    qed
    have "scanLines name sec (l # rest) ?i inSection sectionIndent
            = scanLines name sec rest (?i + 1) True (search_nonspace l)"
      using True by (simp add: isHeader_def Let_def)
    also have "\<dots> = firstDecision name sec ((pre @ [l]) @ rest)"
      unfolding len [symmetric]
      using nd True by (intro Cons.IH) (simp_all add: headerIndent_snoc_header)
    finally show ?thesis by simp
  next
    case notHeader: False
    show ?thesis
    proof (cases "inSection \<and> (closesSection sectionIndent l \<or> namesPackage name l)")
      case True
      then have hi: "headerIndent sec pre = Some sectionIndent"
        using Cons.prems(3) by simp
      have dec: "decides name sec ?lns ?i"
        using True notHeader hi by (simp add: decides_def)
      have "find (decides name sec ?lns) [0..<length ?lns] = Some ?i"
        using at(3) dec Cons.prems(1) by (rule find_upt_first)
      then have spec: "firstDecision name sec ?lns
                         = (if closesSection sectionIndent l then None else Some (lineRange ?i l))"
        by (simp add: firstDecision_def hi)
      have "scanLines name sec (l # rest) ?i inSection sectionIndent
              = (if closesSection sectionIndent l then None else Some (lineRange ?i l))"
        using True notHeader
        by (auto simp: isHeader_def Let_def closesSection_def namesPackage_def lineRange_def)
      with spec show ?thesis by simp
    next
      case False
      have nodec: "\<not> decides name sec ?lns ?i"
      proof (cases inSection)
        case True
        with Cons.prems(3) have "headerIndent sec pre = Some sectionIndent" by simp
        with False True show ?thesis by (simp add: decides_def)
      next
        case False
        with Cons.prems(2) have "headerIndent sec pre = None" by simp
        then show ?thesis by (simp add: decides_def)
      qed
      have nd: "\<forall>j<length (pre @ [l]). \<not> decides name sec ((pre @ [l]) @ rest) j"
      proof (intro allI impI)
        fix j assume "j < length (pre @ [l])"
        then consider "j < ?i" | "j = ?i" by fastforce
        then show "\<not> decides name sec ((pre @ [l]) @ rest) j"
        proof cases
          case 1
          then show ?thesis using Cons.prems(1) by simp
        next
          case 2
          then show ?thesis using nodec by simp
        qed
      qed
      have "scanLines name sec (l # rest) ?i inSection sectionIndent
              = scanLines name sec rest (?i + 1) inSection sectionIndent"
        using False notHeader
        by (auto simp: isHeader_def Let_def closesSection_def namesPackage_def)
      also have "\<dots> = firstDecision name sec ((pre @ [l]) @ rest)"
        unfolding len [symmetric]
        using nd notHeader Cons.prems(2,3)
        by (intro Cons.IH) (simp_all add: headerIndent_snoc_other)
      finally show ?thesis by simp
    qed
  qed
qed

lemma findPackageRange_eq_spec:
  "findPackageRange text name sec = findPackageRange_spec text name sec"
  unfolding findPackageRange_def findPackageRange_spec_def
  using scanLines_firstDecision [of "[]" name sec "js_split (CHR 0x0A) text" False 0]
  by (simp add: headerIndent_def)

text \<open>
  C5, as stated, fails: the line that is returned need not be indented deeper than the
  section header. In the two-line document below the header \<^verbatim>\<open>dependencies:\<close> and the line
  \<^verbatim>\<open>foo: ^1.0.0\<close> both start in column 0; the second line does not end in a colon, so it
  does not close the section, and it is returned.
\<close>

theorem findPackageRange_indent_counterexample:
  "findPackageRange (''dependencies:'' @ [CHR 0x0A] @ ''foo: ^1.0.0'') ''foo'' ''dependencies''
     = Some \<lparr>range_start = \<lparr>line = 1, character = 0\<rparr>,
             range_end = \<lparr>line = 1, character = 11\<rparr>\<rparr>
   \<and> js_split (CHR 0x0A) (''dependencies:'' @ [CHR 0x0A] @ ''foo: ^1.0.0'')
       = [''dependencies:'', ''foo: ^1.0.0'']
   \<and> search_nonspace ''dependencies:'' = 0
   \<and> search_nonspace ''foo: ^1.0.0'' = 0
   \<and> \<not> search_nonspace ''foo: ^1.0.0'' > search_nonspace ''dependencies:''"
  by (simp add: findPackageRange_def search_nonspace_def trim_def isSpace_def Let_def
      suffix_to_prefix)

text \<open>
  C5, amended. For every document, package name and section name, \<open>findPackageRange\<close>
  scans the lines for the section header, tracks the indentation of the last header seen,
  and is decided by the first later line, not itself a header, that either is indented no
  deeper than the header and ends in a colon (the scan stops with no match) or begins,
  once trimmed, with the package name and a colon (its range, from its first column that
  is not white space to its end, is returned); such a line is not required to be indented
  deeper than the header. With no deciding line there is no match. On the manifest of the
  specification \<open>foo\<close> is found in \<open>dependencies\<close> and not in \<open>dev_dependencies\<close>.
\<close>

theorem findPackageRange_first_deciding_line:
  "(\<forall>text packageName sectionName.
      findPackageRange text packageName sectionName
        = findPackageRange_spec text packageName sectionName)
   \<and> findPackageRange
        (''dependencies:'' @ [CHR 0x0A] @ ''  foo: ^1.0.0'' @ [CHR 0x0A]
          @ ''dev_dependencies:'' @ [CHR 0x0A] @ ''  bar: ^2.0.0'')
        ''foo'' ''dependencies''
       = Some \<lparr>range_start = \<lparr>line = 1, character = 2\<rparr>,
               range_end = \<lparr>line = 1, character = 13\<rparr>\<rparr>
   \<and> findPackageRange
        (''dependencies:'' @ [CHR 0x0A] @ ''  foo: ^1.0.0'' @ [CHR 0x0A]
          @ ''dev_dependencies:'' @ [CHR 0x0A] @ ''  bar: ^2.0.0'')
        ''foo'' ''dev_dependencies''
       = None"
proof (intro conjI allI)
  fix doc packageName sectionName
  show "findPackageRange doc packageName sectionName
          = findPackageRange_spec doc packageName sectionName"
    by (rule findPackageRange_eq_spec)
next
  show "findPackageRange
        (''dependencies:'' @ [CHR 0x0A] @ ''  foo: ^1.0.0'' @ [CHR 0x0A]
          @ ''dev_dependencies:'' @ [CHR 0x0A] @ ''  bar: ^2.0.0'')
        ''foo'' ''dependencies''
       = Some \<lparr>range_start = \<lparr>line = 1, character = 2\<rparr>,
               range_end = \<lparr>line = 1, character = 13\<rparr>\<rparr>"
    by (simp add: findPackageRange_def search_nonspace_def trim_def isSpace_def Let_def
        suffix_to_prefix)
next
  show "findPackageRange
        (''dependencies:'' @ [CHR 0x0A] @ ''  foo: ^1.0.0'' @ [CHR 0x0A]
          @ ''dev_dependencies:'' @ [CHR 0x0A] @ ''  bar: ^2.0.0'')
        ''foo'' ''dev_dependencies''
       = None"
    by (simp add: findPackageRange_def search_nonspace_def trim_def isSpace_def Let_def
        suffix_to_prefix)
qed

section \<open>Properties of the registry client\<close>

lemma fetchSearch_fails:
  fixes reg :: Registry
  assumes "search_endpoint reg query page (searchSize cfg) = Inl e"
  shows "fst (fetchSearch clock cfg reg query page w) = Packages []"
    and "requests (snd (fetchSearch clock cfg reg query page w))
           = requests w @ [SearchRequest query page (searchSize cfg)]"
  using assms by (simp_all add: fetchSearch_def searchFailed_def Let_def)

lemma fetchPackageDetails_fails:
  fixes reg :: Registry
  assumes "package_endpoint reg name = Inl e"
  shows "fst (fetchPackageDetails clock cfg reg name w) = None"
    and "requests (snd (fetchPackageDetails clock cfg reg name w))
           = requests w @ [PackageRequest name]"
  using assms by (simp_all add: fetchPackageDetails_def Let_def)

lemma cache_has_requests: "requests (snd (cache_has clock key w)) = requests w"
  by (simp add: cache_has_def dateNow_def split: prod.split)

lemma cache_get_requests: "requests (snd (cache_get clock key w)) = requests w"
  by (simp add: cache_get_def dateNow_def split: prod.split)

text \<open>
  C9. Fail-soft error handling. When no live cache entry answers the call, so that the
  HTTP request is issued, and the request fails, \<open>searchPackages\<close> returns the empty list
  and \<open>getPackageDetails\<close> returns \<^verbatim>\<open>null\<close>, whatever the error was (a response with status
  404 and a network failure give the same result), and exactly one request has been
  issued: there is no retry. Both functions return a value in every case; no exception
  reaches the caller. When the cache answers, no request is issued at all.
\<close>

theorem registry_fail_soft:
  "(\<forall>clock cfg (reg::Registry) query page w e.
      \<not> (isEnabled cfg \<and> fst (cache_has clock (searchKey query page) w))
      \<and> search_endpoint reg query page (searchSize cfg) = Inl e \<longrightarrow>
        fst (searchPackages clock cfg reg query page w) = Packages []
        \<and> requests (snd (searchPackages clock cfg reg query page w))
            = requests w @ [SearchRequest query page (searchSize cfg)])
   \<and> (\<forall>clock cfg (reg::Registry) packageName w e.
        \<not> (isEnabled cfg \<and> fst (cache_has clock (''package:'' @ packageName) w))
        \<and> package_endpoint reg packageName = Inl e \<longrightarrow>
          fst (getPackageDetails clock cfg reg packageName w) = None
          \<and> requests (snd (getPackageDetails clock cfg reg packageName w))
              = requests w @ [PackageRequest packageName])
   \<and> (\<forall>clock cfg reg query page w.
        isEnabled cfg \<and> fst (cache_has clock (searchKey query page) w) \<longrightarrow>
          requests (snd (searchPackages clock cfg reg query page w)) = requests w)
   \<and> (\<forall>clock cfg reg packageName w.
        isEnabled cfg \<and> fst (cache_has clock (''package:'' @ packageName) w) \<longrightarrow>
          requests (snd (getPackageDetails clock cfg reg packageName w)) = requests w)"
proof (intro conjI allI impI)
  fix clock cfg and reg :: Registry and query page w e
  assume a: "\<not> (isEnabled cfg \<and> fst (cache_has clock (searchKey query page) w))
      \<and> search_endpoint reg query page (searchSize cfg) = Inl e"
  then have fails: "search_endpoint reg query page (searchSize cfg) = Inl e"
    by simp
  obtain b w1 where h: "cache_has clock (searchKey query page) w = (b, w1)"
    by (cases "cache_has clock (searchKey query page) w")
  have w1: "requests w1 = requests w"
    using cache_has_requests [of clock "searchKey query page" w] h by simp
  show "fst (searchPackages clock cfg reg query page w) = Packages []"
    using a h by (auto simp: searchPackages_def fetchSearch_fails(1) [OF fails])
  show "requests (snd (searchPackages clock cfg reg query page w))
            = requests w @ [SearchRequest query page (searchSize cfg)]"
    using a h w1 by (auto simp: searchPackages_def fetchSearch_fails(2) [OF fails])
next
  fix clock cfg and reg :: Registry and packageName w e
  assume a: "\<not> (isEnabled cfg \<and> fst (cache_has clock (''package:'' @ packageName) w))
        \<and> package_endpoint reg packageName = Inl e"
  then have fails: "package_endpoint reg packageName = Inl e"
    by simp
  obtain b w1 where h: "cache_has clock (''package:'' @ packageName) w = (b, w1)"
    by (cases "cache_has clock (''package:'' @ packageName) w")
  have w1: "requests w1 = requests w"
    using cache_has_requests [of clock "''package:'' @ packageName" w] h by simp
  show "fst (getPackageDetails clock cfg reg packageName w) = None"
    using a h by (auto simp: getPackageDetails_def Let_def fetchPackageDetails_fails(1) [OF fails])
  show "requests (snd (getPackageDetails clock cfg reg packageName w))
              = requests w @ [PackageRequest packageName]"
    using a h w1
    by (auto simp: getPackageDetails_def Let_def fetchPackageDetails_fails(2) [OF fails])
next
  fix clock cfg reg query page w
  assume a: "isEnabled cfg \<and> fst (cache_has clock (searchKey query page) w)"
  obtain w1 where h: "cache_has clock (searchKey query page) w = (True, w1)"
    using a by (cases "cache_has clock (searchKey query page) w") simp
  have w1: "requests w1 = requests w"
    using cache_has_requests [of clock "searchKey query page" w] h by simp
  obtain v w2 where g: "cache_get clock (searchKey query page) w1 = (v, w2)"
    by (cases "cache_get clock (searchKey query page) w1")
  have w2: "requests w2 = requests w1"
    using cache_get_requests [of clock "searchKey query page" w1] g by simp
  show "requests (snd (searchPackages clock cfg reg query page w)) = requests w"
    using a h g w1 w2 by (simp add: searchPackages_def split: option.split)
next
  fix clock cfg reg packageName w
  assume a: "isEnabled cfg \<and> fst (cache_has clock (''package:'' @ packageName) w)"
  obtain w1 where h: "cache_has clock (''package:'' @ packageName) w = (True, w1)"
    using a by (cases "cache_has clock (''package:'' @ packageName) w") simp
  have w1: "requests w1 = requests w"
    using cache_has_requests [of clock "''package:'' @ packageName" w] h by simp
  show "requests (snd (getPackageDetails clock cfg reg packageName w)) = requests w"
    using a h w1 by (simp add: getPackageDetails_def Let_def cache_get_requests)
qed

theorem registry_fail_soft_witness:
  "\<not> (isEnabled defaultConfig
        \<and> fst (cache_has (\<lambda>n. 0) (searchKey ''http'' 1) emptyWorld))
   \<and> search_endpoint (failingRegistry (ResponseError 404 ''Not Found'')) ''http'' 1
         (searchSize defaultConfig) = Inl (ResponseError 404 ''Not Found'')
   \<and> fst (searchPackages (\<lambda>n. 0) defaultConfig
            (failingRegistry (ResponseError 404 ''Not Found'')) ''http'' 1 emptyWorld)
       = Packages []
   \<and> fst (searchPackages (\<lambda>n. 0) defaultConfig (failingRegistry RequestError) ''http'' 1
            emptyWorld)
       = Packages []
   \<and> requests (snd (searchPackages (\<lambda>n. 0) defaultConfig (failingRegistry RequestError)
                      ''http'' 1 emptyWorld))
       = [SearchRequest ''http'' 1 20]
   \<and> \<not> (isEnabled defaultConfig
          \<and> fst (cache_has (\<lambda>n. 0) (''package:'' @ ''http'') emptyWorld))
   \<and> fst (getPackageDetails (\<lambda>n. 0) defaultConfig
            (failingRegistry (ResponseError 404 ''Not Found'')) ''http'' emptyWorld)
       = None
   \<and> fst (getPackageDetails (\<lambda>n. 0) defaultConfig (failingRegistry RequestError) ''http''
            emptyWorld)
       = None
   \<and> requests (snd (getPackageDetails (\<lambda>n. 0) defaultConfig (failingRegistry RequestError)
                      ''http'' emptyWorld))
       = [PackageRequest ''http'']"
proof -
  note fs = registry_fail_soft [THEN conjunct1, rule_format]
  note fd = registry_fail_soft [THEN conjunct2, THEN conjunct1, rule_format]
  have miss1: "\<not> (isEnabled defaultConfig
        \<and> fst (cache_has (\<lambda>n. 0) (searchKey ''http'' 1) emptyWorld))"
    by (simp add: cache_has_def dateNow_def has_def get_def emptyWorld_def)
  have miss2: "\<not> (isEnabled defaultConfig
        \<and> fst (cache_has (\<lambda>n. 0) (''package:'' @ ''http'') emptyWorld))"
    by (simp add: cache_has_def dateNow_def has_def get_def emptyWorld_def)
  have f1: "search_endpoint (failingRegistry e) ''http'' 1 (searchSize defaultConfig) = Inl e"
    and f2: "package_endpoint (failingRegistry e) ''http'' = Inl e" for e
    by (simp_all add: failingRegistry_def)
  have size: "searchSize defaultConfig = 20"
    by (simp add: searchSize_def defaultConfig_def)
  have nil: "requests emptyWorld = []"
    by (simp add: emptyWorld_def)
  show ?thesis
    using miss1 miss2 f1 [of "ResponseError 404 ''Not Found''"]
      fs [OF conjI [OF miss1 f1], of "ResponseError 404 ''Not Found''"]
      fs [OF conjI [OF miss1 f1], of RequestError]
      fd [OF conjI [OF miss2 f2], of "ResponseError 404 ''Not Found''"]
      fd [OF conjI [OF miss2 f2], of RequestError]
    by (simp add: size nil)
qed

text \<open>
  C2 on the code. \<open>checkForUpdates\<close> hands the declared constraint to \<open>isVersionOutdated\<close> as
  it is. For the range \<^verbatim>\<open>>=1.0.0 <2.0.0\<close> the comparison then runs on the digits and dots
  of both bounds, \<^verbatim>\<open>1.0.02.0.0\<close>, and a latest version 1.0.1 is not reported, while the
  analyzer of the manifest, which reduces the constraint with \<open>extractVersionFromConstraint\<close>
  first, compares 1.0.0 with 1.0.1 and reports the package as outdated.
\<close>

theorem checkForUpdates_keeps_range_constraint:
  "fst (checkForUpdates (\<lambda>n. 0) defaultConfig (registryWithLatest ''1.0.1'')
         [(''pkg'', ''>=1.0.0 <2.0.0'')] emptyWorld) = []
   \<and> digitsAndDots ''>=1.0.0 <2.0.0'' = ''1.0.02.0.0''
   \<and> isVersionOutdated ''>=1.0.0 <2.0.0'' ''1.0.1'' = False
   \<and> extractVersionFromConstraint ''>=1.0.0 <2.0.0'' = ''1.0.0''
   \<and> isVersionOutdated (extractVersionFromConstraint ''>=1.0.0 <2.0.0'') ''1.0.1'' = True
   \<and> fst (checkForUpdates (\<lambda>n. 0) defaultConfig (registryWithLatest ''1.0.1'')
           [(''pkg'', ''1.0.0'')] emptyWorld) = [(''pkg'', ''1.0.1'')]"
proof -
  have latest: "fst (getLatestVersion (\<lambda>n. 0) defaultConfig (registryWithLatest ''1.0.1'')
                      ''pkg'' emptyWorld) = Some ''1.0.1''"
    by (simp add: getLatestVersion_def getPackageDetails_def fetchPackageDetails_def
        cache_has_def cache_set_def dateNow_def has_def get_def emptyWorld_def
        defaultConfig_def isEnabled_def registryWithLatest_def Let_def)
  then obtain w1 where lv: "getLatestVersion (\<lambda>n. 0) defaultConfig
      (registryWithLatest ''1.0.1'') ''pkg'' emptyWorld = (Some ''1.0.1'', w1)"
    by (cases "getLatestVersion (\<lambda>n. 0) defaultConfig (registryWithLatest ''1.0.1'')
                 ''pkg'' emptyWorld") simp
  have clean: "digitsAndDots ''>=1.0.0 <2.0.0'' = ''1.0.02.0.0''"
    by (simp add: digitsAndDots_def isDigit_def)
  have raw: "isVersionOutdated ''>=1.0.0 <2.0.0'' ''1.0.1'' = False"
    by (simp add: isVersionOutdated_def clean outdatedLoop_drop)
       (simp add: digitsAndDots_def isDigit_def Number_def digitVal_def)
  have ext: "extractVersionFromConstraint ''>=1.0.0 <2.0.0'' = ''1.0.0''"
    by (simp add: extractVersionFromConstraint_def matchVersionAt_def isDigit_def Let_def)
  have red: "isVersionOutdated ''1.0.0'' ''1.0.1'' = True"
    by (simp add: isVersionOutdated_def outdatedLoop_drop digitsAndDots_def isDigit_def
        Number_def digitVal_def)
  have c1: "fst (checkForUpdates (\<lambda>n. 0) defaultConfig (registryWithLatest ''1.0.1'')
         [(''pkg'', ''>=1.0.0 <2.0.0'')] emptyWorld) = []"
    using raw by (simp add: checkForUpdates_def lv)
  have c2: "fst (checkForUpdates (\<lambda>n. 0) defaultConfig (registryWithLatest ''1.0.1'')
           [(''pkg'', ''1.0.0'')] emptyWorld) = [(''pkg'', ''1.0.1'')]"
    using red by (simp add: checkForUpdates_def lv)
  show ?thesis
    using c1 clean raw ext red c2 by simp
qed

section \<open>Properties of the manifest accessor and the conflict advisor\<close>










text \<open>
  C6. For every project path, package name, version and dev flag (given or left out),
  \<open>updateDependency\<close> returns what \<open>addDependency\<close> returns for the same arguments and
  leaves the same state behind: the manifest file, the project list and the state of the
  registry client.
\<close>

theorem updateDependency_is_addDependency:
  "updateDependency clock cfg reg projectPath packageName version isDev s
     = addDependency clock cfg reg projectPath packageName version isDev s"
proof -
  have same: "isDevOrDefault (Some (isDevOrDefault isDev)) = isDevOrDefault isDev"
    by (simp add: isDevOrDefault_def)
  show ?thesis
    unfolding updateDependency_def addDependency_def same by (rule refl)
qed




text \<open>
  C8. For every state of the manifests and every project path, \<open>detectConflicts\<close> returns
  the same list of one conflict, for \<open>flutter_lints\<close> with the suggested resolution
  \<^verbatim>\<open>^5.0.0\<close>.
\<close>

theorem detectConflicts_constant:
  "detectConflicts s projectPath = detectConflicts s' projectPath'
   \<and> detectConflicts s projectPath
       = [\<lparr>dc_packageName = ''flutter_lints'',
           dc_conflictingVersions = [''^6.0.0'', ''^5.0.0''],
           dc_suggestedResolution = ''^5.0.0'',
           dc_reason = ''Incompatible version ranges between direct and transitive dependencies''\<rparr>]
   \<and> map dc_packageName (detectConflicts s projectPath) = [''flutter_lints'']
   \<and> map dc_suggestedResolution (detectConflicts s projectPath) = [''^5.0.0'']"
  by (simp add: detectConflicts_def)

end
